theory Spec2Isabelle
  imports Main "HOL-Library.Word"
begin

unbundle bit_operations_syntax

section \<open>PearlDiver: the data model\<close>

text \<open>
  The development follows the class \<open>PearlDiver\<close> (the second part of
  \<^verbatim>\<open>src/shaders/transform.ts\<close>). An \<open>Int32Array\<close> is a list of 32-bit words: a store
  outside its range is dropped (as \<open>xs[i := v]\<close> does), a read outside its range is
  \<open>undefined\<close>, which a store into an \<open>Int32Array\<close> turns into 0.
\<close>

type_synonym int32 = "32 word"

text \<open>
  Modelled from the spec: the structural constants of the hash, \<open>Curl.HASH_LENGTH\<close>,
  \<open>Curl.STATE_LENGTH\<close> and \<open>Curl.NUMBER_OF_ROUNDS\<close>, belong to the class \<open>Curl\<close> of
  the package @iota-pico/crypto, which is not among the sources. The spec gives the
  state length 729; in that class the state is three hash lengths long, so the hash
  length is 243, and the permutation has 81 rounds. The other constants are those of
  \<open>PearlDiver\<close> itself.
\<close>

definition HASH_LENGTH :: nat where
  "HASH_LENGTH = 243"

definition STATE_LENGTH :: nat where
  "STATE_LENGTH = 3 * HASH_LENGTH"

definition NUMBER_OF_ROUNDS :: nat where
  "NUMBER_OF_ROUNDS = 81"

definition TRANSACTION_LENGTH :: nat where
  "TRANSACTION_LENGTH = HASH_LENGTH * 33"

definition TEXEL_SIZE :: nat where
  "TEXEL_SIZE = 4"

definition NONCE_LENGTH :: nat where
  "NONCE_LENGTH = HASH_LENGTH div 3"

definition NONCE_START :: nat where
  "NONCE_START = HASH_LENGTH - NONCE_LENGTH"

definition LOW_BITS :: int32 where
  "LOW_BITS = 0"

definition HIGH_BITS :: int32 where
  "HIGH_BITS = - 1"

definition LOW_0 :: int32 where
  "LOW_0 = 0xDB6DB6DB"

definition LOW_1 :: int32 where
  "LOW_1 = 0xF1F8FC7E"

definition LOW_2 :: int32 where
  "LOW_2 = 0x7FFFE00F"

definition LOW_3 :: int32 where
  "LOW_3 = 0xFFC00000"

definition HIGH_0 :: int32 where
  "HIGH_0 = 0xB6DB6DB6"

definition HIGH_1 :: int32 where
  "HIGH_1 = 0x8FC7E3F1"

definition HIGH_2 :: int32 where
  "HIGH_2 = 0xFFC01FFF"

definition HIGH_3 :: int32 where
  "HIGH_3 = 0x003FFFFF"

text \<open>\<open>PearlDiverSearchStates\<close>: the two halves of a bit-sliced state.\<close>

record PearlDiverSearchStates =
  low :: "int32 list"
  high :: "int32 list"

section \<open>The bit-slice encoder\<close>

text \<open>
  The body of the \<open>forEach\<close> callback of \<open>searchToPair\<close>: the \<open>switch\<close> on one trit, with
  its \<open>default\<close> branch for every value other than 0 and 1.
\<close>

definition searchToPair_trit :: "PearlDiverSearchStates \<Rightarrow> int \<Rightarrow> nat \<Rightarrow> PearlDiverSearchStates" where
  "searchToPair_trit s trit index =
     (if trit = 0 then
        s\<lparr>low := (low s)[index := HIGH_BITS], high := (high s)[index := HIGH_BITS]\<rparr>
      else if trit = 1 then
        s\<lparr>low := (low s)[index := LOW_BITS], high := (high s)[index := HIGH_BITS]\<rparr>
      else
        s\<lparr>low := (low s)[index := HIGH_BITS], high := (high s)[index := LOW_BITS]\<rparr>)"

text \<open>\<open>state.forEach((trit, index) => ...)\<close>, from the index reached so far.\<close>

fun searchToPair_forEach :: "nat \<Rightarrow> int list \<Rightarrow> PearlDiverSearchStates \<Rightarrow> PearlDiverSearchStates" where
  "searchToPair_forEach index [] s = s"
| "searchToPair_forEach index (trit # rest) s =
     searchToPair_forEach (Suc index) rest (searchToPair_trit s trit index)"

definition searchOffset :: "PearlDiverSearchStates \<Rightarrow> nat \<Rightarrow> PearlDiverSearchStates" where
  "searchOffset s off =
     s\<lparr>low := (low s)[off + 0 := LOW_0, off + 1 := LOW_1, off + 2 := LOW_2, off + 3 := LOW_3],
       high := (high s)[off + 0 := HIGH_0, off + 1 := HIGH_1, off + 2 := HIGH_2, off + 3 := HIGH_3]\<rparr>"

definition searchToPair :: "int list \<Rightarrow> PearlDiverSearchStates" where
  "searchToPair st =
     searchOffset
       (searchToPair_forEach 0 st
          \<lparr>low = replicate STATE_LENGTH 0, high = replicate STATE_LENGTH 0\<rparr>)
       NONCE_START"

text \<open>
  Modelled from the spec: the decoder runs in the \<open>finalize\<close> kernel, which is not among
  the sources. The spec reconstructs, for one lane (one bit position), a trit from each
  (low, high) pair: (1,1) is 0, (0,1) is +1, (1,0) is -1, and (0,0) is invalid
  (\<open>None\<close> here).
\<close>

definition decode_trit :: "bool \<Rightarrow> bool \<Rightarrow> int option" where
  "decode_trit l h =
     (if l \<and> h then Some 0
      else if \<not> l \<and> h then Some 1
      else if l \<and> \<not> h then Some (- 1)
      else None)"

definition decode :: "nat \<Rightarrow> PearlDiverSearchStates \<Rightarrow> int option list" where
  "decode lane s = map (\<lambda>(l, h). decode_trit (bit l lane) (bit h lane)) (zip (low s) (high s))"

section \<open>The search orchestrator\<close>

text \<open>
  The engine is the class instance: its fields, the calls it has made to the worker so
  far, the callbacks it has handed to \<open>setTimeout\<close> and the continuations it has
  invoked. The worker (\<open>WebGLWorker\<close>) and the kernels it runs are not among the sources:
  every call to it is logged in \<open>worker_calls\<close>, and what its \<open>readData\<close> and
  \<open>getDimensions\<close> return in one round is a parameter of that round (\<open>WorkerReads\<close>).
  The array \<open>_currentBuffer\<close> is the worker's own \<open>getIpt().data\<close>, so the worker may
  change it in any of its calls: what the array holds after the calls of a round, up to
  the read of the sentinel cell and then up to the read that follows \<open>finalize\<close>, is a
  parameter of the round as well. \<open>webGLFindNonce\<close> fills the array itself and reads
  nothing back; the array is next read in a round.
  A job's \<open>callback\<close> is the \<open>resolve\<close> of the promise of \<open>search\<close>, named by a number;
  \<open>results\<close> records each invocation with the trits handed to the text codec.
  \<open>prepare\<close> and \<open>searchWithTrytes\<close> only combine the external sponge hash and text codec
  with \<open>searchToPair\<close> and \<open>search\<close>, and are left out.
\<close>

datatype PearlDiverState = ready | searching | interrupted

record PearlDiverSearchObject =
  states :: PearlDiverSearchStates
  minWeightMagnitude :: int
  callback :: nat

datatype error = CoreError string int | TypeError

datatype worker_call =
    WriteData "int32 list"
  | RunProgram string nat "(string \<times> int) option"
  | ReadData nat nat nat nat

record WorkerReads =
  sentinel_read :: "int32 list"
  ipt_after_poll :: "int32 list"
  dimensions_x :: nat
  finalize_read :: "int32 list"
  ipt_after_finalize :: "int32 list"

record PearlDiver =
  queue :: "PearlDiverSearchObject list"
  currentBuffer :: "int32 list"
  offset :: int
  state :: PearlDiverState
  worker_calls :: "worker_call list"
  timeouts :: "PearlDiverSearchObject list"
  results :: "(nat \<times> int32 option list) list"

text \<open>
  The constructor, given the array \<open>getIpt().data\<close> of the worker. Its calls that set the
  worker up (\<open>initialize\<close>, \<open>addProgram\<close>) are not logged.
\<close>

definition new_PearlDiver :: "int32 list \<Rightarrow> PearlDiver" where
  "new_PearlDiver ipt =
     \<lparr>queue = [], currentBuffer = ipt, offset = 0, state = ready,
      worker_calls = [], timeouts = [], results = []\<rparr>"

definition setOffset :: "PearlDiver \<Rightarrow> int \<Rightarrow> PearlDiver" where
  "setOffset e n = e\<lparr>offset := n\<rparr>"

definition interrupt :: "PearlDiver \<Rightarrow> PearlDiver" where
  "interrupt e = (if state e = searching then e\<lparr>state := interrupted\<rparr> else e)"

text \<open>\<open>remove\<close> (\<open>this._queue.pop()\<close>); the name \<open>remove\<close> is taken by a constant on sets.\<close>

definition remove_queued :: "PearlDiver \<Rightarrow> PearlDiver" where
  "remove_queued e = e\<lparr>queue := butlast (queue e)\<rparr>"

text \<open>
  A read \<open>xs[i]\<close>: of an array, where the value beyond the end is \<open>undefined\<close>
  (\<open>None\<close>), and as it arrives in an \<open>Int32Array\<close>, where \<open>undefined\<close> is stored as 0.
\<close>

definition at_index :: "'a list \<Rightarrow> nat \<Rightarrow> 'a option" where
  "at_index xs i = (if i < length xs then Some (xs ! i) else None)"

definition int32_at :: "int32 list \<Rightarrow> nat \<Rightarrow> int32" where
  "int32_at xs i = (if i < length xs then xs ! i else 0)"

text \<open>One iteration of the loop of \<open>webGLWriteBuffers\<close>, and the loop.\<close>

definition webGLWriteBuffers_at :: "PearlDiverSearchStates \<Rightarrow> nat \<Rightarrow> int32 list \<Rightarrow> int32 list" where
  "webGLWriteBuffers_at st i buf =
     buf[i * TEXEL_SIZE := int32_at (low st) i,
         i * TEXEL_SIZE + 1 := int32_at (high st) i,
         i * TEXEL_SIZE + 2 := int32_at (low st) i,
         i * TEXEL_SIZE + 3 := int32_at (high st) i]"

definition webGLWriteBuffers :: "int32 list \<Rightarrow> PearlDiverSearchStates \<Rightarrow> int32 list" where
  "webGLWriteBuffers buf st = fold (webGLWriteBuffers_at st) [0..<STATE_LENGTH] buf"

text \<open>
  \<open>webGLFindNonce\<close>. The job is \<open>None\<close> when \<open>shift\<close> found the queue empty; reading
  \<open>searchObject.states\<close> then raises a \<open>TypeError\<close> before anything else happens.
\<close>

definition webGLFindNonce :: "PearlDiver \<Rightarrow> PearlDiverSearchObject option \<Rightarrow> error option \<times> PearlDiver" where
  "webGLFindNonce e searchObject =
     (case searchObject of
        None \<Rightarrow> (Some TypeError, e)
      | Some so \<Rightarrow>
          (let buf = webGLWriteBuffers (currentBuffer e) (states so)
           in (None,
               e\<lparr>currentBuffer := buf,
                 worker_calls := worker_calls e @
                   [WriteData buf, RunProgram ''init'' 1 (Some (''gr_offset'', offset e))],
                 timeouts := timeouts e @ [so]\<rparr>)))"

definition searchDoNext :: "PearlDiver \<Rightarrow> error option \<times> PearlDiver" where
  "searchDoNext e =
     (let next = (case queue e of [] \<Rightarrow> None | j # _ \<Rightarrow> Some j);
          e1 = e\<lparr>queue := tl (queue e)\<rparr>
      in if state e1 \<noteq> searching then webGLFindNonce (e1\<lparr>state := searching\<rparr>) next
         else (None, e1\<lparr>state := ready\<rparr>))"

definition resume :: "PearlDiver \<Rightarrow> error option \<times> PearlDiver" where
  "resume e = searchDoNext e"

text \<open>
  \<open>search\<close>: the error is the rejection of the returned promise; \<open>None\<close> is a promise
  left pending, to be resolved through the job's callback.
\<close>

definition search :: "PearlDiver \<Rightarrow> PearlDiverSearchStates \<Rightarrow> int \<Rightarrow> nat \<Rightarrow> error option \<times> PearlDiver" where
  "search e st minWeight cb =
     (if minWeight \<ge> int HASH_LENGTH \<or> minWeight \<le> 0 then
        (Some (CoreError ''Bad Min-Weight Magnitude'' minWeight), e)
      else
        (let e1 = e\<lparr>queue := queue e @
                   [\<lparr>states = st, minWeightMagnitude = minWeight, callback = cb\<rparr>]\<rparr>
         in if state e1 = ready then searchDoNext e1 else (None, e1)))"

text \<open>
  \<open>pack(l)\<close>, the callback given to \<open>reduce\<close>: a value at an index that is a multiple
  of \<open>l\<close> opens a new group, any other value joins the last group, and there being no
  last group is a \<open>TypeError\<close>. With \<open>l = 0\<close> the remainder is \<open>NaN\<close>, never equal to 0.
\<close>

definition pack :: "nat \<Rightarrow> 'a list list \<Rightarrow> 'a \<Rightarrow> nat \<Rightarrow> error + 'a list list" where
  "pack l r currentValue currentIndex =
     (if l \<noteq> 0 \<and> currentIndex mod l = 0 then Inr (r @ [[currentValue]])
      else if r = [] then Inl TypeError
      else Inr (butlast r @ [last r @ [currentValue]]))"

text \<open>\<open>xs.reduce(this.pack(l), r)\<close>, from the index reached so far.\<close>

fun reduce_pack :: "nat \<Rightarrow> 'a list list \<Rightarrow> nat \<Rightarrow> 'a list \<Rightarrow> error + 'a list list" where
  "reduce_pack l r currentIndex [] = Inr r"
| "reduce_pack l r currentIndex (v # vs) =
     (case pack l r v currentIndex of
        Inl err \<Rightarrow> Inl err
      | Inr r' \<Rightarrow> reduce_pack l r' (Suc currentIndex) vs)"

text \<open>
  \<open>saveSearch\<close>. The array is packed into texels and cut to the first \<open>STATE_LENGTH\<close>;
  the second \<open>reduce\<close> collects channel 0 of every texel in \<open>a[0]\<close> and channel 1 in
  \<open>a[1]\<close>; the third puts \<open>a[0]\<close> under the key low and \<open>a[1]\<close> under the key high,
  and \<open>forEach\<close> assigns them to the job's states. The job is then put at the head of
  the queue. A texel cut short by the end of the array gives \<open>undefined\<close> for its missing
  channel; the only reader of a job's states is \<open>webGLWriteBuffers\<close>, whose store into the
  \<open>Int32Array\<close> makes it 0, so it is 0 here.
\<close>

definition saveSearch :: "PearlDiver \<Rightarrow> PearlDiverSearchObject \<Rightarrow> error option \<times> PearlDiver" where
  "saveSearch e so =
     (case reduce_pack 4 [] 0 (currentBuffer e) of
        Inl err \<Rightarrow> (Some err, e)
      | Inr packed \<Rightarrow>
          (let cells = take STATE_LENGTH packed;
               a = [map (\<lambda>v. int32_at v 0) cells, map (\<lambda>v. int32_at v 1) cells];
               so' = so\<lparr>states := \<lparr>low = a ! 0, high = a ! 1\<rparr>\<rparr>
           in (None, e\<lparr>queue := so' # queue e\<rparr>)))"

text \<open>The worker calls that open every round of \<open>webGLSearch\<close>, up to the read of the sentinel cell.\<close>

definition round_calls :: "PearlDiverSearchObject \<Rightarrow> worker_call list" where
  "round_calls so =
     [RunProgram ''increment'' 1 None,
      RunProgram ''twist'' NUMBER_OF_ROUNDS None,
      RunProgram ''check'' 1 (Some (''minWeightMagnitude'', minWeightMagnitude so)),
      RunProgram ''col_check'' 1 None,
      ReadData STATE_LENGTH 0 1 1]"

text \<open>
  \<open>webGLSearch\<close>, one round. After the four programs and the read of the sentinel
  cell the worker's array holds \<open>ipt_after_poll\<close>. The test is
  \<open>readData(...)[2] === -1\<close>. In its first branch the round either saves the job (out of
  the array as it is then) or hands itself to \<open>setTimeout\<close> again; in the other branch it
  runs \<open>finalize\<close>, reads the first row back (the array then holds
  \<open>ipt_after_finalize\<close>), takes channel 3 of the first \<open>HASH_LENGTH\<close> texels as the
  nonce, invokes the callback and calls \<open>searchDoNext\<close>.
\<close>

definition webGLSearch :: "PearlDiver \<Rightarrow> PearlDiverSearchObject \<Rightarrow> WorkerReads \<Rightarrow> error option \<times> PearlDiver" where
  "webGLSearch e so rd =
     (let e1 = e\<lparr>worker_calls := worker_calls e @ round_calls so,
                currentBuffer := ipt_after_poll rd\<rparr>
      in if at_index (sentinel_read rd) 2 = Some (- 1) then
           (if state e1 = interrupted then saveSearch e1 so
            else (None, e1\<lparr>timeouts := timeouts e1 @ [so]\<rparr>))
         else
           (let e2 = e1\<lparr>worker_calls := worker_calls e1 @
                       [RunProgram ''finalize'' 1 None, ReadData 0 0 (dimensions_x rd) 1],
                     currentBuffer := ipt_after_finalize rd\<rparr>
            in case reduce_pack 4 [] 0 (finalize_read rd) of
                 Inl err \<Rightarrow> (Some err, e2)
               | Inr packed \<Rightarrow>
                   (let nonce = map (\<lambda>x. at_index x 3) (take HASH_LENGTH packed)
                    in searchDoNext (e2\<lparr>results := results e2 @ [(callback so, nonce)]\<rparr>))))"

text \<open>The event loop runs the oldest callback handed to \<open>setTimeout\<close>.\<close>

definition timeout_fires :: "PearlDiver \<Rightarrow> WorkerReads \<Rightarrow> error option \<times> PearlDiver" where
  "timeout_fires e rd =
     (case timeouts e of
        [] \<Rightarrow> (None, e)
      | so # rest \<Rightarrow> webGLSearch (e\<lparr>timeouts := rest\<rparr>) so rd)"

section \<open>Notions used in the statements\<close>

text \<open>The words one trit is mapped to by the \<open>switch\<close> of \<open>searchToPair\<close>.\<close>

definition trit_low :: "int \<Rightarrow> int32" where
  "trit_low trit = (if trit = 1 then LOW_BITS else HIGH_BITS)"

definition trit_high :: "int \<Rightarrow> int32" where
  "trit_high trit = (if trit = 0 \<or> trit = 1 then HIGH_BITS else LOW_BITS)"

text \<open>The (low, high) bits that the four seed words give one lane.\<close>

definition seed_lane :: "nat \<Rightarrow> (bool \<times> bool) list" where
  "seed_lane lane =
     [(bit LOW_0 lane, bit HIGH_0 lane), (bit LOW_1 lane, bit HIGH_1 lane),
      (bit LOW_2 lane, bit HIGH_2 lane), (bit LOW_3 lane, bit HIGH_3 lane)]"

text \<open>An array cut into groups of four, the last one possibly shorter.\<close>

fun texels :: "'a list \<Rightarrow> 'a list list" where
  "texels [] = []"
| "texels [a] = [[a]]"
| "texels [a, b] = [[a, b]]"
| "texels [a, b, c] = [[a, b, c]]"
| "texels (a # b # c # d # rest) = [a, b, c, d] # texels rest"


text \<open>
  Example inputs: the array of a worker whose grid is one row of \<open>STATE_LENGTH + 1\<close>
  texels, and the job that \<open>search\<close> builds for the encoded all-zero state.
\<close>

definition ipt_data :: "int32 list" where
  "ipt_data = replicate (TEXEL_SIZE * (STATE_LENGTH + 1)) 0"

text \<open>An array that the worker has filled with all-ones words in the meantime.\<close>

definition ipt_progress :: "int32 list" where
  "ipt_progress = replicate (TEXEL_SIZE * (STATE_LENGTH + 1)) (- 1)"

definition zero_job :: "int \<Rightarrow> nat \<Rightarrow> PearlDiverSearchObject" where
  "zero_job minWeight cb =
     \<lparr>states = searchToPair (replicate STATE_LENGTH 0), minWeightMagnitude = minWeight, callback = cb\<rparr>"

section \<open>Properties of the encoder\<close>

lemma length_searchToPair_trit:
  "length (low (searchToPair_trit s trit index)) = length (low s) \<and>
   length (high (searchToPair_trit s trit index)) = length (high s)"
  by (simp add: searchToPair_trit_def)

lemma length_searchToPair_forEach:
  "length (low (searchToPair_forEach k ts s)) = length (low s) \<and>
   length (high (searchToPair_forEach k ts s)) = length (high s)"
  by (induction ts arbitrary: k s) (simp_all add: length_searchToPair_trit)

lemma searchToPair_trit_nth:
  "low (searchToPair_trit s trit index) ! i =
     (if i = index \<and> i < length (low s) then trit_low trit else low s ! i)"
  "high (searchToPair_trit s trit index) ! i =
     (if i = index \<and> i < length (high s) then trit_high trit else high s ! i)"
  by (auto simp: searchToPair_trit_def trit_low_def trit_high_def list_update_beyond)

lemma searchToPair_forEach_low:
  "low (searchToPair_forEach k ts s) ! i =
     (if k \<le> i \<and> i < k + length ts \<and> i < length (low s) then trit_low (ts ! (i - k))
      else low s ! i)"
proof (induction ts arbitrary: k s)
  case Nil
  show ?case by auto
next
  case (Cons trit rest)
  show ?case
    using Cons.IH [of "Suc k" "searchToPair_trit s trit k"]
    by (auto simp: searchToPair_trit_nth length_searchToPair_trit nth_Cons')
qed

lemma searchToPair_forEach_high:
  "high (searchToPair_forEach k ts s) ! i =
     (if k \<le> i \<and> i < k + length ts \<and> i < length (high s) then trit_high (ts ! (i - k))
      else high s ! i)"
proof (induction ts arbitrary: k s)
  case Nil
  show ?case by auto
next
  case (Cons trit rest)
  show ?case
    using Cons.IH [of "Suc k" "searchToPair_trit s trit k"]
    by (auto simp: searchToPair_trit_nth length_searchToPair_trit nth_Cons')
qed

lemma length_searchToPair:
  "length (low (searchToPair st)) = STATE_LENGTH \<and> length (high (searchToPair st)) = STATE_LENGTH"
  by (simp add: searchToPair_def searchOffset_def length_searchToPair_forEach)

text \<open>The cells of the encoder's result, one by one.\<close>

lemma searchToPair_low:
  assumes "i < STATE_LENGTH"
  shows "low (searchToPair st) ! i =
     (if i = NONCE_START then LOW_0
      else if i = NONCE_START + 1 then LOW_1
      else if i = NONCE_START + 2 then LOW_2
      else if i = NONCE_START + 3 then LOW_3
      else if i < length st then trit_low (st ! i)
      else 0)"
  using assms
  by (simp add: searchToPair_def searchOffset_def nth_list_update
      length_searchToPair_forEach searchToPair_forEach_low)

lemma searchToPair_high:
  assumes "i < STATE_LENGTH"
  shows "high (searchToPair st) ! i =
     (if i = NONCE_START then HIGH_0
      else if i = NONCE_START + 1 then HIGH_1
      else if i = NONCE_START + 2 then HIGH_2
      else if i = NONCE_START + 3 then HIGH_3
      else if i < length st then trit_high (st ! i)
      else 0)"
  using assms
  by (simp add: searchToPair_def searchOffset_def nth_list_update
      length_searchToPair_forEach searchToPair_forEach_high)

lemma length_constants:
  "STATE_LENGTH = 729" "NONCE_START = 162" "HASH_LENGTH = 243" "NONCE_LENGTH = 81"
  by (simp_all add: STATE_LENGTH_def NONCE_START_def NONCE_LENGTH_def HASH_LENGTH_def)

lemma trit_bits:
  "lane < 32 \<Longrightarrow> bit (trit_low t) lane = (t \<noteq> 1)"
  "lane < 32 \<Longrightarrow> bit (trit_high t) lane = (t = 0 \<or> t = 1)"
  by (simp_all add: trit_low_def trit_high_def LOW_BITS_def HIGH_BITS_def)

subsection \<open>The seed words\<close>

lemma seeds_or:
  "LOW_0 OR HIGH_0 = - 1" "LOW_1 OR HIGH_1 = - 1" "LOW_2 OR HIGH_2 = - 1" "LOW_3 OR HIGH_3 = - 1"
  by (simp_all add: LOW_0_def HIGH_0_def LOW_1_def HIGH_1_def LOW_2_def HIGH_2_def
      LOW_3_def HIGH_3_def)

text \<open>No lane of a seed word holds the pattern (0,0).\<close>

lemma seeds_valid:
  assumes "lane < 32"
  shows "bit LOW_0 lane \<or> bit HIGH_0 lane" "bit LOW_1 lane \<or> bit HIGH_1 lane"
    "bit LOW_2 lane \<or> bit HIGH_2 lane" "bit LOW_3 lane \<or> bit HIGH_3 lane"
proof -
  have all: "bit (- 1 :: int32) lane"
    using assms by simp
  show "bit LOW_0 lane \<or> bit HIGH_0 lane"
    using all unfolding seeds_or(1) [symmetric] by (simp only: bit_or_iff)
  show "bit LOW_1 lane \<or> bit HIGH_1 lane"
    using all unfolding seeds_or(2) [symmetric] by (simp only: bit_or_iff)
  show "bit LOW_2 lane \<or> bit HIGH_2 lane"
    using all unfolding seeds_or(3) [symmetric] by (simp only: bit_or_iff)
  show "bit LOW_3 lane \<or> bit HIGH_3 lane"
    using all unfolding seeds_or(4) [symmetric] by (simp only: bit_or_iff)
qed

text \<open>The 32 lanes of the four seed words hold 32 different patterns.\<close>

lemma seed_lanes_distinct: "distinct (map seed_lane [0..<32])"
  by code_simp

text \<open>In the last seed word no lane holds the trit 0.\<close>

lemma seed_3_never_zero: "\<not> (bit LOW_3 lane \<and> bit HIGH_3 lane)"
proof -
  have "LOW_3 AND HIGH_3 = 0"
    by (simp add: LOW_3_def HIGH_3_def)
  then have "\<not> bit (LOW_3 AND HIGH_3) lane"
    by simp
  then show ?thesis
    by (simp add: bit_and_iff)
qed

lemma seed_cells:
  "take 4 (drop NONCE_START (low (searchToPair st))) = [LOW_0, LOW_1, LOW_2, LOW_3]"
  "take 4 (drop NONCE_START (high (searchToPair st))) = [HIGH_0, HIGH_1, HIGH_2, HIGH_3]"
  by (simp_all add: list_eq_iff_nth_eq length_searchToPair length_constants
       searchToPair_low searchToPair_high nth_Cons' less_Suc_eq)

lemma seed_lane_searchToPair:
  "map (\<lambda>k. (bit (low (searchToPair st) ! (NONCE_START + k)) lane,
              bit (high (searchToPair st) ! (NONCE_START + k)) lane)) [0..<4] = seed_lane lane"
  by (simp add: seed_lane_def searchToPair_low searchToPair_high length_constants
      upt_conv_Cons)

subsection \<open>The decoder on the encoder's result\<close>

lemma length_decode:
  "length (decode lane (searchToPair st)) = STATE_LENGTH"
  by (simp add: decode_def length_searchToPair)

lemma decode_nth:
  "i < STATE_LENGTH \<Longrightarrow>
   decode lane (searchToPair st) ! i =
     decode_trit (bit (low (searchToPair st) ! i) lane) (bit (high (searchToPair st) ! i) lane)"
  by (simp add: decode_def length_searchToPair)

text \<open>
  For the all-zero state no lane at all decodes to the input: cell 165 holds the last
  seed word, in which no lane is 0.
\<close>

lemma decode_zero_state_every_lane:
  "decode lane (searchToPair (replicate STATE_LENGTH 0)) ! 165 \<noteq> Some 0"
proof -
  have "decode lane (searchToPair (replicate STATE_LENGTH 0)) ! 165 =
      decode_trit (bit LOW_3 lane) (bit HIGH_3 lane)"
    by (simp add: decode_nth searchToPair_low searchToPair_high length_constants)
  then show ?thesis
    using seed_3_never_zero [of lane] by (auto simp: decode_trit_def)
qed

subsection \<open>The claims about the encoder\<close>

text \<open>
  C5, as stated: the encoder maps every input trit by the bit-slice rule, the same in all
  32 bit positions of the word. It does not at the seeded cells: the trit at index 162 of
  the all-zero state is 0, yet bit 2 of the low word of cell 162 is clear, because
  \<open>searchOffset\<close> has overwritten the cell with \<open>LOW_0\<close>.
\<close>

theorem searchToPair_seed_cell_counterexample:
  "replicate STATE_LENGTH (0::int) ! 162 = 0 \<and>
   \<not> bit (low (searchToPair (replicate STATE_LENGTH 0)) ! 162) 2"
  by (simp add: searchToPair_low length_constants LOW_0_def)

text \<open>
  C5, amended: for every trit of the input at a cell of the state other than the four
  seeded cells \<open>NONCE_START, ..., NONCE_START + 3\<close>, the encoder sets, in every one of the 32
  bit positions, the bits (low, high) to (1,1) for the trit 0, to (0,1) for the trit +1
  and to (1,0) for the trit -1; and at every cell covered by the input, seeded or not,
  no bit position holds the invalid pattern (0,0).
\<close>

theorem searchToPair_bit_slice_rule:
  assumes "i < length st" and "i < STATE_LENGTH" and "lane < 32"
  shows "(i < NONCE_START \<or> NONCE_START + 4 \<le> i \<longrightarrow>
           (st ! i = 0 \<longrightarrow>
              bit (low (searchToPair st) ! i) lane \<and> bit (high (searchToPair st) ! i) lane) \<and>
           (st ! i = 1 \<longrightarrow>
              \<not> bit (low (searchToPair st) ! i) lane \<and> bit (high (searchToPair st) ! i) lane) \<and>
           (st ! i = - 1 \<longrightarrow>
              bit (low (searchToPair st) ! i) lane \<and> \<not> bit (high (searchToPair st) ! i) lane)) \<and>
         (bit (low (searchToPair st) ! i) lane \<or> bit (high (searchToPair st) ! i) lane)"
proof -
  have rule: "i < NONCE_START \<or> NONCE_START + 4 \<le> i \<Longrightarrow>
      low (searchToPair st) ! i = trit_low (st ! i) \<and>
      high (searchToPair st) ! i = trit_high (st ! i)"
    using assms by (auto simp: searchToPair_low searchToPair_high)
  have valid: "bit (low (searchToPair st) ! i) lane \<or> bit (high (searchToPair st) ! i) lane"
    using assms seeds_valid [of lane]
    by (auto simp: searchToPair_low searchToPair_high trit_bits)
  show ?thesis
    using rule valid assms(3) by (auto simp: trit_bits)
qed

theorem searchToPair_bit_slice_rule_witness:
  "(5::nat) < length (replicate 729 (1::int)) \<and> 5 < STATE_LENGTH \<and>
   (5 < NONCE_START \<or> NONCE_START + 4 \<le> 5) \<and>
   replicate 729 (1::int) ! 5 = 1 \<and>
   \<not> bit (low (searchToPair (replicate 729 1)) ! 5) 7 \<and>
   bit (high (searchToPair (replicate 729 1)) ! 5) 7"
  using searchToPair_bit_slice_rule [of 5 "replicate 729 1" 7]
  by (simp add: length_constants)

text \<open>
  C3, as stated: decoding the encoded state gives the state back. For the all-zero state
  of the state length, lane 0 decodes to something else (cell 162 decodes to -1).
\<close>

theorem decode_searchToPair_counterexample:
  "decode 0 (searchToPair (replicate STATE_LENGTH 0)) \<noteq> map Some (replicate STATE_LENGTH 0)"
proof
  assume "decode 0 (searchToPair (replicate STATE_LENGTH 0)) = map Some (replicate STATE_LENGTH 0)"
  then have "decode 0 (searchToPair (replicate STATE_LENGTH 0)) ! 162 =
      map Some (replicate STATE_LENGTH 0) ! 162"
    by simp
  then show False
    by (simp add: decode_nth searchToPair_low searchToPair_high length_constants
        decode_trit_def LOW_0_def HIGH_0_def)
qed

text \<open>
  C3, amended: for every trit vector of the state length with trits in -1, 0, +1,
  and for every lane, the decoded sequence has the state length and agrees with the input
  at every cell other than the four seeded cells \<open>NONCE_START, ..., NONCE_START + 3\<close>;
  these four cells decode to the trits of the lane's seed, which are valid trits and do
  not depend on the input.
\<close>

theorem decode_searchToPair:
  assumes "length st = STATE_LENGTH" and "set st \<subseteq> {- 1, 0, 1}" and "lane < 32"
    and "i < STATE_LENGTH"
  shows "length (decode lane (searchToPair st)) = length st \<and>
         (i < NONCE_START \<or> NONCE_START + 4 \<le> i \<longrightarrow>
            decode lane (searchToPair st) ! i = Some (st ! i)) \<and>
         map (\<lambda>k. decode lane (searchToPair st) ! (NONCE_START + k)) [0..<4] =
           map (\<lambda>(l, h). decode_trit l h) (seed_lane lane) \<and>
         None \<notin> set (map (\<lambda>(l, h). decode_trit l h) (seed_lane lane))"
proof -
  have "st ! i \<in> set st"
    using assms(1,4) by simp
  then have trit: "st ! i \<in> {- 1, 0, 1}"
    using assms(2) by blast
  have outside: "decode lane (searchToPair st) ! i = Some (st ! i)"
    if "i < NONCE_START \<or> NONCE_START + 4 \<le> i"
  proof -
    have "low (searchToPair st) ! i = trit_low (st ! i)"
      "high (searchToPair st) ! i = trit_high (st ! i)"
      using that assms(1,4) by (auto simp: searchToPair_low searchToPair_high)
    then show ?thesis
      using trit assms(3,4) by (auto simp: decode_nth trit_bits decode_trit_def)
  qed
  have "map (\<lambda>k. decode lane (searchToPair st) ! (NONCE_START + k)) [0..<4] =
      map (\<lambda>(l, h). decode_trit l h)
        (map (\<lambda>k. (bit (low (searchToPair st) ! (NONCE_START + k)) lane,
                     bit (high (searchToPair st) ! (NONCE_START + k)) lane)) [0..<4])"
    by (simp add: decode_nth NONCE_START_def NONCE_LENGTH_def HASH_LENGTH_def STATE_LENGTH_def)
  then have seeded: "map (\<lambda>k. decode lane (searchToPair st) ! (NONCE_START + k)) [0..<4] =
      map (\<lambda>(l, h). decode_trit l h) (seed_lane lane)"
    by (simp only: seed_lane_searchToPair)
  have valid: "None \<notin> set (map (\<lambda>(l, h). decode_trit l h) (seed_lane lane))"
    using seeds_valid [OF assms(3)] by (auto simp: seed_lane_def decode_trit_def)
  show ?thesis
    using outside seeded valid assms(1) by (simp add: length_decode)
qed

theorem decode_searchToPair_witness:
  "length (replicate 729 (1::int)) = STATE_LENGTH \<and>
   set (replicate 729 (1::int)) \<subseteq> {- 1, 0, 1} \<and>
   (5 < NONCE_START \<or> NONCE_START + 4 \<le> 5) \<and>
   decode 7 (searchToPair (replicate 729 1)) ! 5 = Some 1 \<and>
   map (\<lambda>k. decode 7 (searchToPair (replicate 729 1)) ! (NONCE_START + k)) [0..<4] =
     [Some 0, Some 1, Some 1, Some 1]"
  using decode_searchToPair [of "replicate 729 1" 7 5]
  by (simp add: length_constants seed_lane_def decode_trit_def
      LOW_0_def LOW_1_def LOW_2_def LOW_3_def HIGH_0_def HIGH_1_def HIGH_2_def HIGH_3_def)

text \<open>
  C9, as stated: the seed words are written into the last third of the state, which
  starts at cell 486. Cell 486 of the encoded all-zero state holds the word of the trit 0,
  not the first seed word.
\<close>

theorem searchOffset_last_third_counterexample:
  "STATE_LENGTH - STATE_LENGTH div 3 = 486 \<and>
   low (searchToPair (replicate STATE_LENGTH 0)) ! 486 = HIGH_BITS \<and>
   HIGH_BITS \<noteq> LOW_0"
  by (simp add: searchToPair_low length_constants trit_low_def HIGH_BITS_def LOW_0_def)

text \<open>
  C9, amended: for every input, encoding overwrites the four cells that start at
  \<open>NONCE_START = HASH_LENGTH - HASH_LENGTH div 3 = 162\<close>, the start of the nonce field,
  which is the last third of the first \<open>HASH_LENGTH\<close> cells, with the four seed words
  \<open>LOW_0, ..., LOW_3\<close> on the low half and \<open>HIGH_0, ..., HIGH_3\<close> on the high half; the
  32 lanes then hold 32 different patterns in these four cells.
\<close>

theorem searchOffset_seeds:
  "NONCE_START = HASH_LENGTH - HASH_LENGTH div 3 \<and> NONCE_START = 162 \<and>
   NONCE_START + NONCE_LENGTH = HASH_LENGTH \<and>
   take 4 (drop NONCE_START (low (searchToPair st))) = [LOW_0, LOW_1, LOW_2, LOW_3] \<and>
   take 4 (drop NONCE_START (high (searchToPair st))) = [HIGH_0, HIGH_1, HIGH_2, HIGH_3] \<and>
   distinct (map (\<lambda>lane. map (\<lambda>k. (bit (low (searchToPair st) ! (NONCE_START + k)) lane,
                                      bit (high (searchToPair st) ! (NONCE_START + k)) lane)) [0..<4])
              [0..<32])"
proof -
  have lanes: "distinct (map (\<lambda>lane. map (\<lambda>k. (bit (low (searchToPair st) ! (NONCE_START + k)) lane,
                                      bit (high (searchToPair st) ! (NONCE_START + k)) lane)) [0..<4])
              [0..<32])"
    using seed_lanes_distinct by (simp only: seed_lane_searchToPair)
  have field: "NONCE_START = HASH_LENGTH - HASH_LENGTH div 3" "NONCE_START = 162"
    "NONCE_START + NONCE_LENGTH = HASH_LENGTH"
    by (simp_all add: length_constants)
  show ?thesis
    by (intro conjI field lanes seed_cells)
qed

section \<open>Properties of the orchestrator\<close>

subsection \<open>Packing into texels\<close>

lemma reduce_pack_texels:
  "i mod 4 = 0 \<Longrightarrow> reduce_pack 4 r i xs = Inr (r @ texels xs)"
proof (induction xs arbitrary: r i rule: texels.induct)
  case 1
  show ?case by simp
next
  case (2 a)
  then show ?case by (simp add: pack_def)
next
  case (3 a b)
  then show ?case by (simp add: pack_def mod_Suc)
next
  case (4 a b c)
  then show ?case by (simp add: pack_def mod_Suc)
next
  case (5 a b c d rest)
  have "Suc (Suc (Suc (Suc i))) mod 4 = 0"
    using "5.prems" by (simp add: mod_Suc)
  then have "reduce_pack 4 (r @ [[a, b, c, d]]) (Suc (Suc (Suc (Suc i)))) rest =
      Inr ((r @ [[a, b, c, d]]) @ texels rest)"
    by (rule "5.IH")
  then show ?case
    using "5.prems" by (simp add: pack_def mod_Suc)
qed

text \<open>Packing from the start of an array never raises.\<close>

lemma reduce_pack_ok: "reduce_pack 4 [] 0 xs = Inr (texels xs)"
  using reduce_pack_texels [of 0 "[]" xs] by simp

lemma length_texels: "length (texels xs) = (length xs + 3) div 4"
  by (induction xs rule: texels.induct) simp_all

lemma texels_nth:
  "4 * k + j < length xs \<Longrightarrow> j < 4 \<Longrightarrow> at_index (texels xs ! k) j = Some (xs ! (4 * k + j))"
proof (induction xs arbitrary: k rule: texels.induct)
  case 1
  then show ?case by simp
next
  case (2 a)
  then have "k = 0" by simp
  with 2 show ?case by (auto simp: at_index_def)
next
  case (3 a b)
  then have "k = 0" by simp
  with 3 show ?case by (auto simp: at_index_def)
next
  case (4 a b c)
  then have "k = 0" by simp
  with 4 show ?case by (auto simp: at_index_def)
next
  case (5 a b c d rest)
  show ?case
  proof (cases k)
    case 0
    then show ?thesis
      using "5.prems" by (auto simp: at_index_def nth_Cons' less_Suc_eq numeral_eq_Suc)
  next
    case (Suc k')
    have "4 * k' + j < length rest"
      using "5.prems" Suc by simp
    then have "at_index (texels rest ! k') j = Some (rest ! (4 * k' + j))"
      using "5.prems"(2) by (rule "5.IH")
    then show ?thesis
      using Suc by simp
  qed
qed

lemma int32_at_texels:
  assumes "4 * k + j < length xs" and "j < 4"
  shows "int32_at (texels xs ! k) j = xs ! (4 * k + j)"
  using texels_nth [OF assms] by (auto simp: at_index_def int32_at_def split: if_splits)

text \<open>Channel \<open>j\<close> of the first \<open>STATE_LENGTH\<close> texels, read from the array directly.\<close>

lemma snapshot_cells:
  assumes "TEXEL_SIZE * STATE_LENGTH \<le> length buf" and "j < 4"
  shows "map (\<lambda>v. int32_at v j) (take STATE_LENGTH (texels buf)) =
         map (\<lambda>i. buf ! (i * TEXEL_SIZE + j)) [0..<STATE_LENGTH]"
proof (rule nth_equalityI)
  show "length (map (\<lambda>v. int32_at v j) (take STATE_LENGTH (texels buf))) =
        length (map (\<lambda>i. buf ! (i * TEXEL_SIZE + j)) [0..<STATE_LENGTH])"
    using assms(1) by (simp add: length_texels TEXEL_SIZE_def)
next
  fix k
  assume "k < length (map (\<lambda>v. int32_at v j) (take STATE_LENGTH (texels buf)))"
  then have k: "k < STATE_LENGTH" "k < length (texels buf)"
    by simp_all
  then have "4 * k + j < length buf"
    using assms by (simp add: TEXEL_SIZE_def)
  then have "int32_at (texels buf ! k) j = buf ! (4 * k + j)"
    using assms(2) by (rule int32_at_texels)
  then show "map (\<lambda>v. int32_at v j) (take STATE_LENGTH (texels buf)) ! k =
             map (\<lambda>i. buf ! (i * TEXEL_SIZE + j)) [0..<STATE_LENGTH] ! k"
    using k by (simp add: TEXEL_SIZE_def mult.commute)
qed

subsection \<open>Writing the array and saving it are inverse\<close>

lemma length_webGLWriteBuffers_at: "length (webGLWriteBuffers_at st i buf) = length buf"
  by (simp add: webGLWriteBuffers_at_def)

lemma length_fold_webGLWriteBuffers_at:
  "length (fold (webGLWriteBuffers_at st) [0..<n] buf) = length buf"
  by (induction n) (simp_all add: length_webGLWriteBuffers_at)

lemma length_webGLWriteBuffers: "length (webGLWriteBuffers buf st) = length buf"
  by (simp add: webGLWriteBuffers_def length_fold_webGLWriteBuffers_at)

lemma texel_index_div:
  "Suc (i * 4) div 4 = i" "Suc (Suc (i * 4)) div 4 = i" "Suc (Suc (Suc (i * 4))) div 4 = i"
  by simp_all

lemma webGLWriteBuffers_at_nth:
  assumes "m < length buf"
  shows "webGLWriteBuffers_at st i buf ! m =
     (if m div 4 = i then (if even m then int32_at (low st) i else int32_at (high st) i)
      else buf ! m)"
proof (cases "m div 4 = i")
  case True
  define j where "j = m mod 4"
  have m: "m = i * 4 + j"
    using True div_mult_mod_eq [of m 4] by (simp add: j_def)
  have "j < 4"
    by (simp add: j_def)
  then have "j = 0 \<or> j = 1 \<or> j = 2 \<or> j = 3"
    by arith
  then show ?thesis
    using assms unfolding m
    by (auto simp: webGLWriteBuffers_at_def TEXEL_SIZE_def texel_index_div)
next
  case False
  then have "m \<noteq> i * 4" "m \<noteq> i * 4 + 1" "m \<noteq> i * 4 + 2" "m \<noteq> i * 4 + 3"
    by auto
  with False show ?thesis
    by (simp add: webGLWriteBuffers_at_def TEXEL_SIZE_def)
qed

lemma fold_webGLWriteBuffers_at_nth:
  assumes "m < length buf"
  shows "fold (webGLWriteBuffers_at st) [0..<n] buf ! m =
     (if m div 4 < n then (if even m then int32_at (low st) (m div 4) else int32_at (high st) (m div 4))
      else buf ! m)"
  using assms
  by (induction n)
    (auto simp: webGLWriteBuffers_at_nth length_fold_webGLWriteBuffers_at less_Suc_eq)

lemma webGLWriteBuffers_nth:
  assumes "m < length buf"
  shows "webGLWriteBuffers buf st ! m =
     (if m div 4 < STATE_LENGTH
      then (if even m then int32_at (low st) (m div 4) else int32_at (high st) (m div 4))
      else buf ! m)"
  using assms by (simp add: webGLWriteBuffers_def fold_webGLWriteBuffers_at_nth)

text \<open>
  What \<open>saveSearch\<close> reads out of an array that \<open>webGLWriteBuffers\<close> has just filled from
  a state of full length is that state.
\<close>

lemma saveSearch_webGLWriteBuffers:
  assumes "length (low st) = STATE_LENGTH" and "length (high st) = STATE_LENGTH"
    and "TEXEL_SIZE * STATE_LENGTH \<le> length buf"
  shows "map (\<lambda>i. webGLWriteBuffers buf st ! (i * TEXEL_SIZE)) [0..<STATE_LENGTH] = low st"
    and "map (\<lambda>i. webGLWriteBuffers buf st ! (i * TEXEL_SIZE + 1)) [0..<STATE_LENGTH] = high st"
  using assms
  by (auto simp: list_eq_iff_nth_eq webGLWriteBuffers_nth TEXEL_SIZE_def int32_at_def
      texel_index_div)

subsection \<open>One round\<close>



lemma saveSearch_eq:
  "saveSearch e so =
     (None, e\<lparr>queue := so\<lparr>states :=
        \<lparr>low = map (\<lambda>v. int32_at v 0) (take STATE_LENGTH (texels (currentBuffer e))),
         high = map (\<lambda>v. int32_at v 1) (take STATE_LENGTH (texels (currentBuffer e)))\<rparr>\<rparr> # queue e\<rparr>)"
  by (simp add: saveSearch_def reduce_pack_ok Let_def)

lemma webGLSearch_no_match:
  assumes "at_index (sentinel_read rd) 2 = Some (- 1)"
  shows "webGLSearch e so rd =
     (if state e = interrupted
      then saveSearch (e\<lparr>worker_calls := worker_calls e @ round_calls so,
                         currentBuffer := ipt_after_poll rd\<rparr>) so
      else (None, e\<lparr>worker_calls := worker_calls e @ round_calls so,
                    currentBuffer := ipt_after_poll rd, timeouts := timeouts e @ [so]\<rparr>))"
  using assms by (simp add: webGLSearch_def Let_def)



subsection \<open>The claims about the orchestrator\<close>

text \<open>
  C8: \<open>interrupt\<close> takes an engine that is \<open>searching\<close> to \<open>interrupted\<close> and changes
  nothing else; in every other state it leaves the whole engine (state, queue, offset and
  the rest) as it is; calling it twice is the same as calling it once.
\<close>

theorem interrupt_only_when_searching:
  "(state e = searching \<longrightarrow> interrupt e = e\<lparr>state := interrupted\<rparr>) \<and>
   (state e \<noteq> searching \<longrightarrow> interrupt e = e) \<and>
   interrupt (interrupt e) = interrupt e"
  by (simp add: interrupt_def)

theorem interrupt_only_when_searching_witness:
  "state ((new_PearlDiver ipt_data)\<lparr>state := searching\<rparr>) = searching \<and>
   interrupt ((new_PearlDiver ipt_data)\<lparr>state := searching\<rparr>) =
     (new_PearlDiver ipt_data)\<lparr>state := interrupted\<rparr> \<and>
   state (new_PearlDiver ipt_data) \<noteq> searching \<and>
   interrupt (new_PearlDiver ipt_data) = new_PearlDiver ipt_data"
  using interrupt_only_when_searching [of "(new_PearlDiver ipt_data)\<lparr>state := searching\<rparr>"]
    interrupt_only_when_searching [of "new_PearlDiver ipt_data"]
  by (simp add: new_PearlDiver_def)

text \<open>
  C4: for every state vector and every difficulty that is at most 0 or at least the hash
  length, \<open>search\<close> fails at once with the error "Bad Min-Weight Magnitude" and leaves the
  engine as it was: nothing is added to the queue and no call is made to the worker.
\<close>

theorem search_bad_min_weight:
  assumes "minWeight \<le> 0 \<or> minWeight \<ge> int HASH_LENGTH"
  shows "search e st minWeight cb = (Some (CoreError ''Bad Min-Weight Magnitude'' minWeight), e)"
  using assms by (auto simp: search_def)

theorem search_bad_min_weight_witness:
  "search (new_PearlDiver ipt_data) (searchToPair (replicate STATE_LENGTH 0)) 0 7 =
     (Some (CoreError ''Bad Min-Weight Magnitude'' 0), new_PearlDiver ipt_data) \<and>
   search (new_PearlDiver ipt_data) (searchToPair (replicate STATE_LENGTH 0)) 243 7 =
     (Some (CoreError ''Bad Min-Weight Magnitude'' 243), new_PearlDiver ipt_data)"
  using search_bad_min_weight [of 0 "new_PearlDiver ipt_data" "searchToPair (replicate STATE_LENGTH 0)" 7]
    search_bad_min_weight [of 243 "new_PearlDiver ipt_data" "searchToPair (replicate STATE_LENGTH 0)" 7]
  by (simp add: HASH_LENGTH_def)

text \<open>
  C2: called on an engine that is \<open>searching\<close>, \<open>searchDoNext\<close> takes the head job off the
  queue, sets the state to \<open>ready\<close> and does nothing with the job (no worker call, no
  timeout); called on an engine that is not \<open>searching\<close>, with a job at the head of the
  queue, it takes the job off, sets the state to \<open>searching\<close>, uploads the job's state,
  runs \<open>init\<close> and schedules the first round for that job.
\<close>

theorem searchDoNext_asymmetry:
  "(state e = searching \<longrightarrow>
      searchDoNext e = (None, e\<lparr>queue := tl (queue e), state := ready\<rparr>)) \<and>
   (state e \<noteq> searching \<longrightarrow> queue e = job # rest \<longrightarrow>
      searchDoNext e =
        (None, e\<lparr>queue := rest, state := searching,
                 currentBuffer := webGLWriteBuffers (currentBuffer e) (states job),
                 worker_calls := worker_calls e @
                   [WriteData (webGLWriteBuffers (currentBuffer e) (states job)),
                    RunProgram ''init'' 1 (Some (''gr_offset'', offset e))],
                 timeouts := timeouts e @ [job]\<rparr>))"
  by (simp add: searchDoNext_def webGLFindNonce_def Let_def)

theorem searchDoNext_asymmetry_witness:
  "state ((new_PearlDiver ipt_data)\<lparr>queue := [zero_job 14 1], state := searching\<rparr>) = searching \<and>
   searchDoNext ((new_PearlDiver ipt_data)\<lparr>queue := [zero_job 14 1], state := searching\<rparr>) =
     (None, new_PearlDiver ipt_data) \<and>
   state ((new_PearlDiver ipt_data)\<lparr>queue := [zero_job 14 1]\<rparr>) \<noteq> searching \<and>
   searchDoNext ((new_PearlDiver ipt_data)\<lparr>queue := [zero_job 14 1]\<rparr>) =
     (None, (new_PearlDiver ipt_data)
        \<lparr>state := searching,
         currentBuffer := webGLWriteBuffers ipt_data (states (zero_job 14 1)),
         worker_calls := [WriteData (webGLWriteBuffers ipt_data (states (zero_job 14 1))),
                          RunProgram ''init'' 1 (Some (''gr_offset'', 0))],
         timeouts := [zero_job 14 1]\<rparr>)"
  using searchDoNext_asymmetry
      [of "(new_PearlDiver ipt_data)\<lparr>queue := [zero_job 14 1], state := searching\<rparr>"]
    searchDoNext_asymmetry
      [of "(new_PearlDiver ipt_data)\<lparr>queue := [zero_job 14 1]\<rparr>" "zero_job 14 1" "[]"]
  by (simp add: new_PearlDiver_def)

text \<open>
  C10: \<open>resume\<close> on an engine whose queue is empty and whose state is not \<open>searching\<close>
  takes no job off the queue, sets the state to \<open>searching\<close> and raises a \<open>TypeError\<close>
  when \<open>webGLFindNonce\<close> reads the states of the missing job. The engine just built is
  such an engine.
\<close>

theorem resume_empty_queue:
  assumes "queue e = []" and "state e \<noteq> searching"
  shows "resume e = (Some TypeError, e\<lparr>state := searching\<rparr>)"
  using assms by (simp add: resume_def searchDoNext_def webGLFindNonce_def)

theorem resume_empty_queue_witness:
  "queue (new_PearlDiver ipt_data) = [] \<and> state (new_PearlDiver ipt_data) \<noteq> searching \<and>
   resume (new_PearlDiver ipt_data) = (Some TypeError, (new_PearlDiver ipt_data)\<lparr>state := searching\<rparr>)"
  using resume_empty_queue [of "new_PearlDiver ipt_data"]
  by (simp add: new_PearlDiver_def)

text \<open>
  C6: with a difficulty strictly between 0 and the hash length, \<open>search\<close> appends the new
  job at the tail of the queue. If the engine is \<open>ready\<close> it then starts the job at the
  head of the queue (takes it off, uploads its state, runs \<open>init\<close>, schedules its first
  round, and is \<open>searching\<close>); in every other state, \<open>searching\<close> included, the appended
  job is the only change: no worker call is made and no round is scheduled.
\<close>

theorem search_enqueues:
  assumes "0 < minWeight" and "minWeight < int HASH_LENGTH"
  shows
   "(state e = ready \<longrightarrow>
       search e st minWeight cb =
         (None, e\<lparr>queue := tl (queue e @ [\<lparr>states = st, minWeightMagnitude = minWeight, callback = cb\<rparr>]),
                  state := searching,
                  currentBuffer := webGLWriteBuffers (currentBuffer e)
                    (states (hd (queue e @ [\<lparr>states = st, minWeightMagnitude = minWeight, callback = cb\<rparr>]))),
                  worker_calls := worker_calls e @
                    [WriteData (webGLWriteBuffers (currentBuffer e)
                       (states (hd (queue e @ [\<lparr>states = st, minWeightMagnitude = minWeight, callback = cb\<rparr>])))),
                     RunProgram ''init'' 1 (Some (''gr_offset'', offset e))],
                  timeouts := timeouts e @
                    [hd (queue e @ [\<lparr>states = st, minWeightMagnitude = minWeight, callback = cb\<rparr>])]\<rparr>)) \<and>
    (state e \<noteq> ready \<longrightarrow>
       search e st minWeight cb =
         (None, e\<lparr>queue := queue e @ [\<lparr>states = st, minWeightMagnitude = minWeight, callback = cb\<rparr>]\<rparr>))"
  using assms
  by (cases "queue e") (simp_all add: search_def searchDoNext_def webGLFindNonce_def Let_def)

theorem search_enqueues_witness:
  "(0::int) < 14 \<and> 14 < int HASH_LENGTH \<and>
   state ((new_PearlDiver ipt_data)\<lparr>state := searching\<rparr>) \<noteq> ready \<and>
   search ((new_PearlDiver ipt_data)\<lparr>state := searching\<rparr>) (searchToPair (replicate STATE_LENGTH 0)) 14 2 =
     (None, (new_PearlDiver ipt_data)\<lparr>state := searching, queue := [zero_job 14 2]\<rparr>) \<and>
   state (new_PearlDiver ipt_data) = ready \<and>
   search (new_PearlDiver ipt_data) (searchToPair (replicate STATE_LENGTH 0)) 14 2 =
     (None, (new_PearlDiver ipt_data)
        \<lparr>state := searching,
         currentBuffer := webGLWriteBuffers ipt_data (searchToPair (replicate STATE_LENGTH 0)),
         worker_calls := [WriteData (webGLWriteBuffers ipt_data (searchToPair (replicate STATE_LENGTH 0))),
                          RunProgram ''init'' 1 (Some (''gr_offset'', 0))],
         timeouts := [zero_job 14 2]\<rparr>)"
  using search_enqueues
      [of 14 "(new_PearlDiver ipt_data)\<lparr>state := searching\<rparr>" "searchToPair (replicate STATE_LENGTH 0)" 2]
    search_enqueues
      [of 14 "new_PearlDiver ipt_data" "searchToPair (replicate STATE_LENGTH 0)" 2]
  by (simp add: new_PearlDiver_def zero_job_def HASH_LENGTH_def)




text \<open>
  C7: when a round reads the all-ones sentinel (no match) on an engine that is
  \<open>interrupted\<close>, and the array, as the worker's calls of this round have left it, holds
  at least the \<open>STATE_LENGTH\<close> texels of the state, the round copies channel 0 of these
  texels into the low half and channel 1 into the high half of the job's state vector,
  puts the job at the head of the queue and stops: no further round is scheduled, the
  state stays \<open>interrupted\<close>, and the job's callback is not invoked.
\<close>

theorem webGLSearch_interrupted:
  assumes "at_index (sentinel_read rd) 2 = Some (- 1)" and "state e = interrupted"
    and "TEXEL_SIZE * STATE_LENGTH \<le> length (ipt_after_poll rd)"
  shows "webGLSearch e so rd =
     (None, e\<lparr>worker_calls := worker_calls e @ round_calls so,
              currentBuffer := ipt_after_poll rd,
              queue := so\<lparr>states :=
                \<lparr>low = map (\<lambda>i. ipt_after_poll rd ! (i * TEXEL_SIZE)) [0..<STATE_LENGTH],
                 high = map (\<lambda>i. ipt_after_poll rd ! (i * TEXEL_SIZE + 1)) [0..<STATE_LENGTH]\<rparr>\<rparr> #
                queue e\<rparr>)"
  using assms(2) snapshot_cells [OF assms(3), of 0] snapshot_cells [OF assms(3), of 1]
  by (simp add: webGLSearch_no_match [OF assms(1)] saveSearch_eq)

theorem webGLSearch_interrupted_witness:
  "at_index (sentinel_read \<lparr>sentinel_read = [0, 0, - 1, 0], ipt_after_poll = ipt_progress,
         dimensions_x = 730, finalize_read = [], ipt_after_finalize = ipt_progress\<rparr>) 2
     = Some (- 1) \<and>
   state ((new_PearlDiver ipt_data)\<lparr>state := interrupted\<rparr>) = interrupted \<and>
   TEXEL_SIZE * STATE_LENGTH \<le> length (ipt_after_poll
       \<lparr>sentinel_read = [0, 0, - 1, 0], ipt_after_poll = ipt_progress,
         dimensions_x = 730, finalize_read = [], ipt_after_finalize = ipt_progress\<rparr>) \<and>
   webGLSearch ((new_PearlDiver ipt_data)\<lparr>state := interrupted\<rparr>) (zero_job 14 1)
       \<lparr>sentinel_read = [0, 0, - 1, 0], ipt_after_poll = ipt_progress,
         dimensions_x = 730, finalize_read = [], ipt_after_finalize = ipt_progress\<rparr> =
     (None, (new_PearlDiver ipt_data)
        \<lparr>state := interrupted, worker_calls := round_calls (zero_job 14 1),
         currentBuffer := ipt_progress,
         queue := [(zero_job 14 1)\<lparr>states :=
            \<lparr>low = map (\<lambda>i. ipt_progress ! (i * TEXEL_SIZE)) [0..<STATE_LENGTH],
             high = map (\<lambda>i. ipt_progress ! (i * TEXEL_SIZE + 1)) [0..<STATE_LENGTH]\<rparr>\<rparr>]\<rparr>) \<and>
   ipt_progress ! (5 * TEXEL_SIZE) = - 1 \<and> ipt_data ! (5 * TEXEL_SIZE) = 0"
  using webGLSearch_interrupted [of "\<lparr>sentinel_read = [0, 0, - 1, 0], ipt_after_poll = ipt_progress,
         dimensions_x = 730, finalize_read = [], ipt_after_finalize = ipt_progress\<rparr>"
      "(new_PearlDiver ipt_data)\<lparr>state := interrupted\<rparr>" "zero_job 14 1"]
  by (simp add: at_index_def new_PearlDiver_def ipt_data_def ipt_progress_def
      TEXEL_SIZE_def STATE_LENGTH_def HASH_LENGTH_def)

end
